theory Spec2Isabelle
  imports Complex_Main "HOL-Library.Sublist"
begin

section \<open>The expiring key-value cache (cache.ts)\<close>

text \<open>
  \<^verbatim>\<open>TTLCache\<close> keeps a \<^verbatim>\<open>Map\<close> from keys to records \<^verbatim>\<open>{ value, expiresAt }\<close> and a
  default time to live. Both methods read the clock (\<^verbatim>\<open>Date.now()\<close>, milliseconds); the
  model takes the reading as the argument \<open>now\<close> and returns the cache after the call,
  since \<^verbatim>\<open>get\<close> deletes an expired record. The source keys the map by strings and stores
  values of any type; the model is polymorphic in both.
\<close>

record 'v CacheRecord =
  cr_value :: 'v
  expiresAt :: int

record ('k, 'v) TTLCache =
  store :: "'k \<rightharpoonup> 'v CacheRecord"
  defaultTtlMs :: int

text \<open>\<^verbatim>\<open>new TTLCache()\<close>: an empty store, six hours by default.\<close>

definition new_TTLCache :: "('k, 'v) TTLCache" where
  "new_TTLCache = \<lparr>store = Map.empty, defaultTtlMs = 1000 * 60 * 60 * 6\<rparr>"

definition TTLCache_get :: "('k, 'v) TTLCache \<Rightarrow> 'k \<Rightarrow> int \<Rightarrow> 'v option \<times> ('k, 'v) TTLCache" where
  "TTLCache_get c key now =
     (case store c key of
        None \<Rightarrow> (None, c)
      | Some record \<Rightarrow>
          if expiresAt record < now
          then (None, c\<lparr>store := (store c)(key := None)\<rparr>)
          else (Some (cr_value record), c))"

text \<open>\<^verbatim>\<open>options?.ttlMs ?? this.defaultTtlMs\<close>: the optional argument is an \<open>int option\<close>.\<close>

definition TTLCache_set :: "('k, 'v) TTLCache \<Rightarrow> 'k \<Rightarrow> 'v \<Rightarrow> int option \<Rightarrow> int \<Rightarrow> ('k, 'v) TTLCache" where
  "TTLCache_set c key v ttlMs now =
     (let ttl = (case ttlMs of Some t \<Rightarrow> t | None \<Rightarrow> defaultTtlMs c)
      in c\<lparr>store := (store c)(key \<mapsto> \<lparr>cr_value = v, expiresAt = now + ttl\<rparr>)\<rparr>)"


section \<open>JavaScript values and idioms\<close>

text \<open>
  A \<^verbatim>\<open>number\<close> that is a count (a day count, an index, a rounded total) is an \<open>int\<close>; a
  price, a score or a coordinate is a \<open>real\<close>: every such value of this program is finite
  (prices come from \<^verbatim>\<open>Math.round\<close> or from fixed tables), and the model computes on them
  exactly. An optional field or an \<^verbatim>\<open>undefined\<close> result is an \<open>option\<close>. Record fields are
  global constants in HOL, so a field whose name is taken (or is shared by two interfaces)
  carries a short prefix: \<open>s_type\<close> is \<^verbatim>\<open>StayOption.type\<close>.
\<close>

text \<open>\<^verbatim>\<open>a ?? b\<close>.\<close>

definition nullish :: "'a option \<Rightarrow> 'a \<Rightarrow> 'a" where
  "nullish a b = (case a of Some x \<Rightarrow> x | None \<Rightarrow> b)"

text \<open>\<^verbatim>\<open>xs[i]\<close> on an array: \<^verbatim>\<open>undefined\<close> outside the array, also at index \<open>-1\<close>.\<close>

definition at_index :: "'a list \<Rightarrow> int \<Rightarrow> 'a option" where
  "at_index xs i = (if 0 \<le> i \<and> i < int (length xs) then Some (xs ! nat i) else None)"

text \<open>\<^verbatim>\<open>Math.round\<close> rounds to the nearest integer, a half towards \<open>+\<infinity>\<close>.\<close>

definition Math_round :: "real \<Rightarrow> int" where
  "Math_round x = \<lfloor>x + 1 / 2\<rfloor>"

text \<open>Truthiness of an optional string: \<^verbatim>\<open>undefined\<close> and the empty string are falsy.\<close>

definition truthy :: "string option \<Rightarrow> bool" where
  "truthy s = (case s of None \<Rightarrow> False | Some t \<Rightarrow> t \<noteq> [])"

definition startsWith :: "string \<Rightarrow> string \<Rightarrow> bool" where
  "startsWith s p = prefix p s"

text \<open>\<^verbatim>\<open>String.prototype.includes\<close>.\<close>

definition str_includes :: "string \<Rightarrow> string \<Rightarrow> bool" where
  "str_includes s sub = sublist sub s"

text \<open>
  \<^verbatim>\<open>toLowerCase\<close> on the letters A to Z; a \<open>string\<close> is a list of bytes, and bytes outside
  that range are left as they are.
\<close>

definition lower_char :: "char \<Rightarrow> char" where
  "lower_char c =
     (case map_of (zip ''ABCDEFGHIJKLMNOPQRSTUVWXYZ'' ''abcdefghijklmnopqrstuvwxyz'') c of
        Some l \<Rightarrow> l
      | None \<Rightarrow> c)"

definition toLowerCase :: "string \<Rightarrow> string" where
  "toLowerCase s = map lower_char s"

text \<open>
  A \<^verbatim>\<open>Set\<close> is the list of its members in insertion order, without repetition:
  \<^verbatim>\<open>add\<close> appends a new member and ignores a known one.
\<close>

definition Set_add :: "'a list \<Rightarrow> 'a \<Rightarrow> 'a list" where
  "Set_add s x = (if x \<in> set s then s else s @ [x])"

definition new_Set :: "'a list \<Rightarrow> 'a list" where
  "new_Set xs = foldl Set_add [] xs"

text \<open>\<^verbatim>\<open>s.replace(/pat/, rep)\<close> for a literal pattern: the first occurrence only.\<close>

fun replace_first :: "string \<Rightarrow> string \<Rightarrow> string \<Rightarrow> string" where
  "replace_first pat rep [] = (if pat = [] then rep else [])"
| "replace_first pat rep (c # cs) =
     (if prefix pat (c # cs) then rep @ drop (length pat) (c # cs)
      else c # replace_first pat rep cs)"

section \<open>The shared types (types.ts)\<close>

datatype StayType = Budget | Mid | Premium

record StayOption =
  s_name :: string
  s_type :: StayType
  pricePerNightUSD :: real
  totalUSD :: real
  s_rating :: "real option"
  s_address :: "string option"
  s_link :: "string option"

record StaysResult =
  s_note :: "string option"
  s_options :: "StayOption list"

record FlightOption =
  carrier :: string
  f_from :: string
  f_to :: string
  depart :: string
  arrive :: string
  priceUSD :: real
  f_link :: "string option"

record FlightsResult =
  f_note :: "string option"
  f_options :: "FlightOption list"

record PlaceOption =
  p_id :: string
  p_name :: string
  p_category :: string
  p_lat :: real
  p_lon :: real
  p_url :: "string option"
  estMinutes :: "int option"

record PlacesResult =
  p_note :: "string option"
  p_options :: "PlaceOption list"


record CostEstimate =
  lowUSD :: int
  midUSD :: int
  highUSD :: int
  ce_notes :: "string list"

record ToolMeta =
  generatedAt :: string
  meta_providers :: "string list"
  meta_cached :: bool

record ('k, 'v) ProviderContext =
  cache :: "('k, 'v) TTLCache"
  providersUsed :: "string list"

section \<open>Provenance (mcp.ts)\<close>


text \<open>
  The arrow of \<^verbatim>\<open>'cache\<rightarrow>'\<close> (U+2192) is written as the three bytes of its UTF-8 encoding.
\<close>

definition cache_arrow :: string where
  "cache_arrow = ''cache'' @ [char_of (226::nat), char_of (134::nat), char_of (146::nat)]"

definition providerNames :: "(string \<times> string) list" where
  "providerNames =
     [(''amadeus'', ''Amadeus''),
      (''opentripmap:mock'', ''OpenTripMap (mock)''),
      (''opentripmap'', ''OpenTripMap''),
      (''stays:mock'', ''Mock stays''),
      (''flights:mock'', ''Mock flights''),
      (''weather:mock'', ''Weather (mock)''),
      (''open-meteo'', ''Open-Meteo'')]"

text \<open>
  Every name of the table is a non-empty string, so \<^verbatim>\<open>if (map[name])\<close> tests presence.
  The tags are the strings that the providers add, none of which names a property that
  the table inherits as an object.
\<close>

definition formatProviderName :: "string \<Rightarrow> string" where
  "formatProviderName name =
     (case map_of providerNames name of
        Some readable \<Rightarrow> readable
      | None \<Rightarrow> replace_first ''cache:'' cache_arrow name)"

text \<open>
  \<^verbatim>\<open>providersFromContext\<close>; the timestamp \<^verbatim>\<open>new Date().toISOString()\<close> is the argument
  \<open>stamp\<close>.
\<close>

definition providersFromContext :: "string \<Rightarrow> ('k, 'v) ProviderContext \<Rightarrow> ToolMeta" where
  "providersFromContext stamp context =
     (let providers = providersUsed context;
          readableProviders =
            map formatProviderName (filter (\<lambda>name. \<not> startsWith name ''cache:'') providers);
          cached = list_ex (\<lambda>name. startsWith name ''cache:'') providers
      in \<lparr>generatedAt = stamp,
          meta_providers = (if readableProviders \<noteq> [] then readableProviders else [''mock-data'']),
          meta_cached = cached\<rparr>)"

section \<open>Lodging tiers and the cost estimate (mcp.ts)\<close>

definition desiredTypes :: "StayType list" where
  "desiredTypes = [Budget, Mid, Premium]"

text \<open>
  \<^verbatim>\<open>selectStayTiers\<close>: for each tier in turn the first option of that tier, or else the first
  option whatever its tier, is pushed when there is one.
\<close>

definition selectStayTiers :: "StayOption list \<Rightarrow> StayOption list" where
  "selectStayTiers options =
     foldl (\<lambda>result type.
              case (case find (\<lambda>option. s_type option = type) options of
                      Some stay \<Rightarrow> Some stay
                    | None \<Rightarrow> find (\<lambda>_. True) options) of
                Some stay \<Rightarrow> result @ [stay]
              | None \<Rightarrow> result)
       [] desiredTypes"

record CostNotes =
  cn_flights :: "string option"
  cn_stays :: "string option"
  cn_places :: "string option"
  cn_weather :: "string option"

text \<open>
  The parts of \<^verbatim>\<open>computeCostEstimate\<close>, one definition for each \<^verbatim>\<open>const\<close> of its body.
  \<^verbatim>\<open>Number.isFinite(price)\<close> holds of every \<open>real\<close>.
\<close>

definition Number_isFinite :: "real \<Rightarrow> bool" where
  "Number_isFinite x = True"

definition flightPrices :: "FlightsResult option \<Rightarrow> real list option" where
  "flightPrices flights =
     map_option
       (\<lambda>r. sort (filter (\<lambda>price. Number_isFinite price \<and> price > 0) (map priceUSD (f_options r))))
       flights"

definition flightLow :: "FlightsResult option \<Rightarrow> bool \<Rightarrow> real" where
  "flightLow flights originProvided =
     nullish (Option.bind (flightPrices flights) (\<lambda>ps. at_index ps 0))
       (if originProvided then 0 else 0)"

definition flightMid :: "FlightsResult option \<Rightarrow> bool \<Rightarrow> real" where
  "flightMid flights originProvided =
     nullish
       (Option.bind (flightPrices flights)
          (\<lambda>ps. at_index ps (min 1 (nullish (map_option (\<lambda>qs. int (length qs)) (flightPrices flights)) 1 - 1))))
       (flightLow flights originProvided)"

definition flightHigh :: "FlightsResult option \<Rightarrow> bool \<Rightarrow> real" where
  "flightHigh flights originProvided =
     nullish
       (Option.bind (flightPrices flights)
          (\<lambda>ps. at_index ps (min 2 (nullish (map_option (\<lambda>qs. int (length qs)) (flightPrices flights)) 1 - 1))))
       (flightMid flights originProvided)"

text \<open>\<^verbatim>\<open>stays.forEach((stay) => stayLookup.set(stay.type, stay))\<close>: a later stay replaces an
  earlier one of its tier.\<close>

definition stayLookup :: "StayOption list \<Rightarrow> (StayType \<rightharpoonup> StayOption)" where
  "stayLookup stays = foldl (\<lambda>m stay. m(s_type stay \<mapsto> stay)) Map.empty stays"

definition stayBudget :: "StayOption list \<Rightarrow> real" where
  "stayBudget stays = nullish (map_option totalUSD (stayLookup stays Budget)) 0"

definition stayMid :: "StayOption list \<Rightarrow> real" where
  "stayMid stays = nullish (map_option totalUSD (stayLookup stays Mid)) (stayBudget stays)"

definition stayPremium :: "StayOption list \<Rightarrow> real" where
  "stayPremium stays = nullish (map_option totalUSD (stayLookup stays Premium)) (stayMid stays)"

definition dailySpendLow :: int where "dailySpendLow = 45"
definition dailySpendMid :: int where "dailySpendMid = 75"
definition dailySpendHigh :: int where "dailySpendHigh = 130"

text \<open>
  \<^verbatim>\<open>computeCostEstimate\<close>. \<^verbatim>\<open>formatCurrency\<close> formats through the runtime's
  \<^verbatim>\<open>Intl.NumberFormat\<close> and is a parameter. \<^verbatim>\<open>if (budget)\<close> is false for an absent budget and
  for a budget of 0.
\<close>

definition computeCostEstimate ::
  "(real \<Rightarrow> string) \<Rightarrow> int \<Rightarrow> StayOption list \<Rightarrow> FlightsResult option \<Rightarrow> real option \<Rightarrow> bool
     \<Rightarrow> CostNotes \<Rightarrow> CostEstimate" where
  "computeCostEstimate formatCurrency days stays flights budget originProvided notes =
     (let activityLow = dailySpendLow * days;
          activityMid = dailySpendMid * days;
          activityHigh = dailySpendHigh * days;
          low = Math_round (flightLow flights originProvided + stayBudget stays + real_of_int activityLow);
          middle = Math_round (flightMid flights originProvided + stayMid stays + real_of_int activityMid);
          high = Math_round (flightHigh flights originProvided + stayPremium stays + real_of_int activityHigh);
          costNotes = [''Daily activity budgets: $45/75/130 (low/mid/high).'']
            @ (case budget of
                 None \<Rightarrow> []
               | Some b \<Rightarrow>
                   if b = 0 then []
                   else [''Target budget: '' @ formatCurrency b @ ''.'',
                         ''Mid-range estimate is '' @ (if real_of_int middle \<le> b then ''within'' else ''above'')
                           @ '' budget.''])
            @ (if truthy (cn_flights notes) then [the (cn_flights notes)] else [])
            @ (if truthy (cn_stays notes) then [the (cn_stays notes)] else [])
            @ (if truthy (cn_places notes) then [the (cn_places notes)] else [])
            @ (if truthy (cn_weather notes) then [the (cn_weather notes)] else [])
      in \<lparr>lowUSD = low, midUSD = middle, highUSD = high, ce_notes = costNotes\<rparr>)"

section \<open>Interest scores (mcp.ts)\<close>

text \<open>
  \<^verbatim>\<open>computeInterestScore\<close>: 1 for an empty interest set; otherwise 1 plus, for each member
  of the set, 2 when the lower-cased category includes it and 1.5 when the lower-cased name
  does.
\<close>

definition computeInterestScore :: "PlaceOption \<Rightarrow> string list \<Rightarrow> real" where
  "computeInterestScore place interests =
     (if interests = [] then 1
      else foldl (\<lambda>score interest.
                    let score1 = (if str_includes (toLowerCase (p_category place)) interest
                                  then score + 2 else score)
                    in if str_includes (toLowerCase (p_name place)) interest
                       then score1 + 1.5 else score1)
             1 interests)"

text \<open>
  The set that \<^verbatim>\<open>groupPlacesForItinerary\<close> hands to the score:
  \<^verbatim>\<open>new Set((interests ?? []).map((item) => item.toLowerCase()))\<close>.
\<close>

definition interestSet :: "string list option \<Rightarrow> string list" where
  "interestSet interests = new_Set (map toLowerCase (nullish interests []))"


section \<open>Errors\<close>

text \<open>
  A \<^verbatim>\<open>throw\<close> is a value: a function that can throw returns \<open>js_error + 'a\<close>, with \<open>Inl\<close>
  the error thrown and \<open>Inr\<close> the value returned; \<open>try_catch\<close> is \<^verbatim>\<open>try { ... } catch\<close>.
\<close>

datatype js_error = Error string | RangeError string | TypeError string | SyntaxError string


text \<open>Sequencing of two steps, the second skipped when the first throws.\<close>

definition and_then :: "js_error + 'a \<Rightarrow> ('a \<Rightarrow> js_error + 'b) \<Rightarrow> js_error + 'b" where
  "and_then m f = (case m of Inl e \<Rightarrow> Inl e | Inr v \<Rightarrow> f v)"

section \<open>Decimal numerals\<close>

definition digit_char :: "nat \<Rightarrow> char" where
  "digit_char n = ''0123456789'' ! (n mod 10)"

fun decimal :: "nat \<Rightarrow> string" where
  "decimal n = (if n < 10 then [digit_char n] else decimal (n div 10) @ [digit_char (n mod 10)])"

declare decimal.simps [simp del]


definition padStart :: "nat \<Rightarrow> char \<Rightarrow> string \<Rightarrow> string" where
  "padStart w c s = replicate (w - length s) c @ s"

definition digit_value :: "char \<Rightarrow> int option" where
  "digit_value c = map_of (zip ''0123456789'' [0, 1, 2, 3, 4, 5, 6, 7, 8, 9]) c"

text \<open>The number written by a string of decimal digits; \<open>None\<close> when a character is no digit.\<close>

definition digits_value :: "string \<Rightarrow> int option" where
  "digits_value s =
     foldl (\<lambda>acc c. case (acc, digit_value c) of (Some a, Some d) \<Rightarrow> Some (10 * a + d) | _ \<Rightarrow> None)
       (Some 0) s"

section \<open>Dates (the runtime's \<^verbatim>\<open>Date\<close>)\<close>

text \<open>
  A \<^verbatim>\<open>Date\<close> holds a time value, the milliseconds since 1970-01-01T00:00:00Z, or
  \<^verbatim>\<open>NaN\<close> (an invalid date): an \<open>int option\<close>. The functions below are the abstract
  operations of ECMAScript on time values, with the proleptic Gregorian calendar computed
  on day numbers. The time values of this program stay far inside the range that
  \<^verbatim>\<open>TimeClip\<close> admits (a hundred million days around the epoch); the clipping is not
  modelled.
\<close>

type_synonym Date = "int option"

definition msPerDay :: int where
  "msPerDay = 86400000"

definition Day :: "int \<Rightarrow> int" where
  "Day t = t div msPerDay"

definition TimeWithinDay :: "int \<Rightarrow> int" where
  "TimeWithinDay t = t mod msPerDay"

text \<open>The day number of the date \<open>y-m-d\<close>, with \<open>m\<close> from 1 to 12.\<close>

definition days_from_civil :: "int \<Rightarrow> int \<Rightarrow> int \<Rightarrow> int" where
  "days_from_civil y m d =
     (let y1 = (if m \<le> 2 then y - 1 else y);
          era = y1 div 400;
          yoe = y1 - era * 400;
          doy = (153 * (if m > 2 then m - 3 else m + 9) + 2) div 5 + d - 1;
          doe = yoe * 365 + yoe div 4 - yoe div 100 + doy
      in era * 146097 + doe - 719468)"

text \<open>The year and the month (1 to 12) of a day number.\<close>

definition civil_from_days :: "int \<Rightarrow> int \<times> int" where
  "civil_from_days z =
     (let z1 = z + 719468;
          era = z1 div 146097;
          doe = z1 - era * 146097;
          yoe = (doe - doe div 1460 + doe div 36524 - doe div 146096) div 365;
          doy = doe - (365 * yoe + yoe div 4 - yoe div 100);
          mp = (5 * doy + 2) div 153;
          m = (if mp < 10 then mp + 3 else mp - 9)
      in (if m \<le> 2 then yoe + era * 400 + 1 else yoe + era * 400, m))"

definition YearFromTime :: "int \<Rightarrow> int" where
  "YearFromTime t = fst (civil_from_days (Day t))"

text \<open>\<^verbatim>\<open>MonthFromTime\<close> counts from 0.\<close>

definition MonthFromTime :: "int \<Rightarrow> int" where
  "MonthFromTime t = snd (civil_from_days (Day t)) - 1"

text \<open>\<^verbatim>\<open>MakeDay(year, month, date)\<close>: months beyond the year and days beyond the month carry over.\<close>

definition MakeDay :: "int \<Rightarrow> int \<Rightarrow> int \<Rightarrow> int" where
  "MakeDay year month dt = days_from_civil (year + month div 12) (month mod 12 + 1) 1 + dt - 1"

definition MakeDate :: "int \<Rightarrow> int \<Rightarrow> int" where
  "MakeDate day time = day * msPerDay + time"

text \<open>The day of the month: the days since the first of the month, plus one.\<close>

definition DateFromTime :: "int \<Rightarrow> int" where
  "DateFromTime t = Day t - MakeDay (YearFromTime t) (MonthFromTime t) 1 + 1"

definition getUTCDate :: "Date \<Rightarrow> int option" where
  "getUTCDate date = map_option DateFromTime date"

definition setUTCDate :: "Date \<Rightarrow> int option \<Rightarrow> Date" where
  "setUTCDate date dt =
     (case (date, dt) of
        (Some t, Some d) \<Rightarrow> Some (MakeDate (MakeDay (YearFromTime t) (MonthFromTime t) d) (TimeWithinDay t))
      | _ \<Rightarrow> None)"

text \<open>
  \<^verbatim>\<open>toISOString\<close>: \<^verbatim>\<open>YYYY-MM-DDTHH:mm:ss.sssZ\<close>, the year with a sign and six digits outside
  0 to 9999; a \<^verbatim>\<open>RangeError\<close> for an invalid date.
\<close>

definition iso_year :: "int \<Rightarrow> string" where
  "iso_year y =
     (if 0 \<le> y \<and> y \<le> 9999 then padStart 4 (CHR ''0'') (decimal (nat y))
      else (if y < 0 then ''-'' else ''+'') @ padStart 6 (CHR ''0'') (decimal (nat \<bar>y\<bar>)))"

definition pad2 :: "int \<Rightarrow> string" where
  "pad2 n = padStart 2 (CHR ''0'') (decimal (nat n))"

definition iso_string :: "int \<Rightarrow> string" where
  "iso_string t =
     (let w = TimeWithinDay t
      in iso_year (YearFromTime t) @ ''-'' @ pad2 (MonthFromTime t + 1) @ ''-'' @ pad2 (DateFromTime t)
         @ ''T'' @ pad2 (w div 3600000) @ '':'' @ pad2 (w div 60000 mod 60) @ '':'' @ pad2 (w div 1000 mod 60)
         @ ''.'' @ padStart 3 (CHR ''0'') (decimal (nat (w mod 1000))) @ ''Z'')"

definition toISOString :: "Date \<Rightarrow> js_error + string" where
  "toISOString date =
     (case date of None \<Rightarrow> Inl (RangeError ''Invalid time value'') | Some t \<Rightarrow> Inr (iso_string t))"

text \<open>
  \<^verbatim>\<open>new Date(s)\<close> and \<^verbatim>\<open>Date.parse(s)\<close> on the two shapes of string that reach them in this
  program: a date \<^verbatim>\<open>YYYY-MM-DD\<close> (what \<^verbatim>\<open>validateISODate\<close> lets through) and such a date
  followed by \<^verbatim>\<open>THH:mm:ssZ\<close> (\<^verbatim>\<open>buildMockFlights\<close>). As in Node's V8, the month must lie in
  1 to 12 and the day in 1 to 31, and a day beyond the end of the month carries over into
  the next month; a date without a time is midnight UTC. Any other string is taken to be
  invalid.
\<close>

definition parse_date_part :: "string \<Rightarrow> int option" where
  "parse_date_part s =
     (if length s = 10 \<and> s ! 4 = CHR ''-'' \<and> s ! 7 = CHR ''-'' then
        (case (digits_value (take 4 s), digits_value (take 2 (drop 5 s)), digits_value (drop 8 s)) of
           (Some y, Some m, Some d) \<Rightarrow>
             if 1 \<le> m \<and> m \<le> 12 \<and> 1 \<le> d \<and> d \<le> 31 then Some (MakeDay y (m - 1) d) else None
         | _ \<Rightarrow> None)
      else None)"

definition parse_time_part :: "string \<Rightarrow> int option" where
  "parse_time_part s =
     (if s = [] then Some 0
      else if length s = 10 \<and> s ! 0 = CHR ''T'' \<and> s ! 3 = CHR '':'' \<and> s ! 6 = CHR '':'' \<and> s ! 9 = CHR ''Z'' then
        (case (digits_value (take 2 (drop 1 s)), digits_value (take 2 (drop 4 s)), digits_value (take 2 (drop 7 s))) of
           (Some h, Some m, Some sec) \<Rightarrow>
             if h \<le> 23 \<and> m \<le> 59 \<and> sec \<le> 59 \<or> h = 24 \<and> m = 0 \<and> sec = 0
             then Some (h * 3600000 + m * 60000 + sec * 1000) else None
         | _ \<Rightarrow> None)
      else None)"

definition Date_parse :: "string \<Rightarrow> Date" where
  "Date_parse s =
     (case (parse_date_part (take 10 s), parse_time_part (drop 10 s)) of
        (Some day, Some time) \<Rightarrow> Some (MakeDate day time)
      | _ \<Rightarrow> None)"

text \<open>\<^verbatim>\<open>addDays\<close> of mcp.ts (the weather provider has the same function).\<close>

definition addDays :: "string \<Rightarrow> int \<Rightarrow> js_error + string" where
  "addDays base offset =
     (let date = Date_parse base;
          date1 = setUTCDate date (map_option (\<lambda>d. d + offset) (getUTCDate date))
      in and_then (toISOString date1) (\<lambda>iso. Inr (take 10 iso)))"





section \<open>Itinerary synthesis (mcp.ts)\<close>







section \<open>Upstream responses\<close>







section \<open>Provider parameters, results and the shared cache (types.ts)\<close>

record DestinationInfo =
  d_name :: string
  d_country :: string
  d_lat :: real
  d_lon :: real

text \<open>
  A temperature of the live forecast can be \<^verbatim>\<open>NaN\<close> (\<^verbatim>\<open>Number(undefined)\<close>), so the
  temperatures of a \<^verbatim>\<open>WeatherDay\<close> are numbers with \<^verbatim>\<open>NaN\<close>.
\<close>

datatype number = Num real | NaN

record WeatherDay =
  wd_date :: string
  hiC :: number
  loC :: number
  precipProb :: "real option"

record WeatherSnapshot =
  daily :: "WeatherDay list"

record WeatherQueryParams =
  w_lat :: real
  w_lon :: real
  w_startDate :: string
  w_days :: int

datatype CabinClass = economy | premium_economy | business | first

record FlightSearchParams =
  fs_origin :: string
  fs_destination :: string
  departDate :: string
  returnDate :: "string option"
  adults :: "int option"
  cabin :: "CabinClass option"

record StaySearchParams =
  ss_destination :: string
  checkIn :: string
  nights :: int
  guests :: "int option"

record AttractionSearchParams =
  as_destination :: string
  as_tags :: "string list option"
  as_limit :: "int option"


text \<open>
  The cache of a request holds the results of all five capabilities in one map. A key is
  the capability's prefix followed by the serialised parameters
  (\<^verbatim>\<open>`weather:${JSON.stringify(params)}`\<close>, \<^verbatim>\<open>`dest:${city.toLowerCase()}`\<close>); the model keeps
  the prefix as a constructor and the parameters as they are, \<^verbatim>\<open>JSON.stringify\<close> being
  one-to-one on these records. A value is tagged with the type of the result; the source
  casts what it reads (\<^verbatim>\<open>get<WeatherSnapshot>\<close>), and as the prefixes keep the capabilities
  apart, a provider finds under its keys only what it stored there. In the model a value
  of another capability's type under a provider's key counts as a miss.
\<close>

datatype cache_key =
    K_dest string
  | K_weather WeatherQueryParams
  | K_flights FlightSearchParams
  | K_stays StaySearchParams
  | K_places AttractionSearchParams

datatype cached =
    C_dest DestinationInfo
  | C_weather WeatherSnapshot
  | C_flights FlightsResult
  | C_stays StaysResult
  | C_places PlacesResult

type_synonym Context = "(cache_key, cached) ProviderContext"

text \<open>
  The two effects every provider has on the context: \<^verbatim>\<open>context.providersUsed.add(tag)\<close> and
  \<^verbatim>\<open>context.cache.set(key, value)\<close> at the clock reading \<open>now\<close>.
\<close>

definition add_provider :: "string \<Rightarrow> Context \<Rightarrow> Context" where
  "add_provider tag context = context\<lparr>providersUsed := Set_add (providersUsed context) tag\<rparr>"

definition cache_store :: "cache_key \<Rightarrow> cached \<Rightarrow> int \<Rightarrow> Context \<Rightarrow> Context" where
  "cache_store key v now context = context\<lparr>cache := TTLCache_set (cache context) key v None now\<rparr>"

text \<open>\<^verbatim>\<open>context.cache.get(key)\<close>: the value read and the context after the read.\<close>

definition cache_lookup :: "cache_key \<Rightarrow> int \<Rightarrow> Context \<Rightarrow> cached option \<times> Context" where
  "cache_lookup key now context =
     (let (v, c) = TTLCache_get (cache context) key now in (v, context\<lparr>cache := c\<rparr>))"

section \<open>The weather provider (providers/weather.ts)\<close>









section \<open>The flights provider (providers/flights.ts)\<close>




record AmadeusTokenResponse =
  access_token :: string
  token_type :: string
  expires_in :: int











section \<open>The stays provider (providers/stays.ts)\<close>

text \<open>The entries of \<^verbatim>\<open>MOCK_STAYS\<close>: name, tier, rating, address and link.\<close>

definition MOCK_STAYS :: "(string \<times> StayType \<times> real \<times> string \<times> string) list" where
  "MOCK_STAYS =
     [(''Old Town Guesthouse'', Budget, 4.4, ''Soi Moonmuang 8, Chiang Mai'', ''https://example.com/old-town-guesthouse''),
      (''Nimman Boutique Hotel'', Mid, 4.6, ''Nimmanahaeminda Rd., Chiang Mai'', ''https://example.com/nimman-boutique''),
      (''Ping River Retreat'', Premium, 4.8, ''Charoenrat Rd., Chiang Mai'', ''https://example.com/ping-river-retreat''),
      (''Night Bazaar Lofts'', Mid, 4.5, ''Chang Khlan Rd., Chiang Mai'', ''https://example.com/night-bazaar-lofts''),
      (''Doi Suthep View Villas'', Premium, 4.9, ''Huay Kaew Rd., Chiang Mai'', ''https://example.com/doi-suthep-view''),
      (''Backpackers Hub Hostel'', Budget, 4.2, ''Tha Phae Gate, Chiang Mai'', ''https://example.com/backpackers-hub''),
      (''Riverside Boutique Suites'', Premium, 4.7, ''Wat Ket, Chiang Mai'', ''https://example.com/riverside-boutique''),
      (''Garden Lane Homestay'', Budget, 4.3, ''Santitham, Chiang Mai'', ''https://example.com/garden-lane-homestay''),
      (''Craft Hotel Nimman'', Mid, 4.6, ''Nimmanahaeminda Soi 11, Chiang Mai'', ''https://example.com/craft-hotel-nimman''),
      (''Zen Garden Residence'', Premium, 4.9, ''Mae Rim, Chiang Mai'', ''https://example.com/zen-garden-residence'')]"

definition basePrices :: "StayType \<Rightarrow> real" where
  "basePrices t = (case t of Budget \<Rightarrow> 35 | Mid \<Rightarrow> 82 | Premium \<Rightarrow> 185)"

definition withPricing ::
  "(string \<times> StayType \<times> real \<times> string \<times> string) list \<Rightarrow> StaySearchParams \<Rightarrow> StayOption list" where
  "withPricing stays params =
     map (\<lambda>(index, (name, type, rating, address, link)).
            let priceAdjust = 1 + real index * 0.05;
                nightly = Math_round (basePrices type * priceAdjust);
                total = nightly * nights params
            in \<lparr>s_name = name, s_type = type, pricePerNightUSD = real_of_int nightly,
                totalUSD = real_of_int total, s_rating = Some rating, s_address = Some address,
                s_link = Some link\<rparr>)
       (enumerate 0 stays)"


section \<open>Destinations and places (providers/places.ts)\<close>















section \<open>Planning a trip (mcp.ts)\<close>






section \<open>Validation of the plan request (mcp.ts)\<close>

text \<open>
  The request body is any JSON value, or \<^verbatim>\<open>undefined\<close>; an object lists each of its
  properties once. A property that an object does not have reads as \<^verbatim>\<open>undefined\<close>; so
  does any of the request's properties on an array.
\<close>

datatype json =
    JUndefined
  | JNull
  | JBool bool
  | JNumber real
  | JString string
  | JArray "json list"
  | JObject "(string \<times> json) list"








section \<open>Notions used in the statements\<close>









section \<open>Sample inputs\<close>

text \<open>Concrete values at which the theorems below are exercised.\<close>

definition stayA :: StayOption where
  "stayA = \<lparr>s_name = ''Old Town Guesthouse'', s_type = Budget, pricePerNightUSD = 35, totalUSD = 140,
     s_rating = Some 4.4, s_address = None, s_link = None\<rparr>"

definition stayB :: StayOption where
  "stayB = \<lparr>s_name = ''Nimman Boutique Hotel'', s_type = Mid, pricePerNightUSD = 86, totalUSD = 344,
     s_rating = Some 4.6, s_address = None, s_link = None\<rparr>"

definition stayC :: StayOption where
  "stayC = \<lparr>s_name = ''Ping River Retreat'', s_type = Premium, pricePerNightUSD = 204, totalUSD = 816,
     s_rating = Some 4.8, s_address = None, s_link = None\<rparr>"

definition flightAt :: "real \<Rightarrow> FlightOption" where
  "flightAt p = \<lparr>carrier = ''Mock Air A'', f_from = ''BKK'', f_to = ''CNX'',
     depart = ''2025-11-20T08:15:00.000Z'', arrive = ''2025-11-20T12:45:00.000Z'',
     priceUSD = p, f_link = None\<rparr>"

definition place_coffee :: PlaceOption where
  "place_coffee = \<lparr>p_id = ''mock-nimman-coffee'', p_name = ''Nimman Coffee Crawl'', p_category = ''food'',
     p_lat = 18.799, p_lon = 98.967, p_url = Some ''https://goo.gl/maps/owS1iEZzu1L2'', estMinutes = Some 120\<rparr>"

definition place_wat :: PlaceOption where
  "place_wat = \<lparr>p_id = ''mock-wat-phra-singh'', p_name = ''Wat Phra Singh'', p_category = ''temple'',
     p_lat = 18.788889, p_lon = 98.981944, p_url = Some ''https://goo.gl/maps/VWnvaQRcWtr'', estMinutes = Some 90\<rparr>"




section \<open>Notions used in the statements\<close>





definition four_nights :: StaySearchParams where
  "four_nights = \<lparr>ss_destination = ''Chiang Mai'', checkIn = ''2025-11-20'', nights = 4, guests = None\<rparr>"







section \<open>Properties of the cache\<close>

lemma TTLCache_get_hit:
  "store c key = Some r \<Longrightarrow> now \<le> expiresAt r \<Longrightarrow> TTLCache_get c key now = (Some (cr_value r), c)"
  by (simp add: TTLCache_get_def)

lemma TTLCache_get_expired:
  "store c key = Some r \<Longrightarrow> expiresAt r < now \<Longrightarrow>
   TTLCache_get c key now = (None, c\<lparr>store := (store c)(key := None)\<rparr>)"
  by (simp add: TTLCache_get_def)

lemma TTLCache_get_absent:
  "store c key = None \<Longrightarrow> TTLCache_get c key now = (None, c)"
  by (simp add: TTLCache_get_def)

lemma TTLCache_set_store:
  "store (TTLCache_set c key v ttlMs now) key =
     Some \<lparr>cr_value = v, expiresAt = now + (case ttlMs of Some t \<Rightarrow> t | None \<Rightarrow> defaultTtlMs c)\<rparr>"
  by (simp add: TTLCache_set_def Let_def)

text \<open>
  C2, as the spec states it: an entry is visible only while \<open>now < expiresAt\<close>. The guard
  of \<^verbatim>\<open>get\<close> is \<^verbatim>\<open>record.expiresAt < Date.now()\<close>, so a read at the instant
  \<open>now = expiresAt\<close> still returns the value: set at time 0 with a TTL of 5 ms, read at
  time 5.
\<close>

theorem C2_visible_at_expiry_instant:
  "fst (TTLCache_get (TTLCache_set new_TTLCache ''k'' (1::nat) (Some 5) 0) ''k'' 5) = Some 1
   \<and> \<not> (5 < expiresAt (the (store (TTLCache_set new_TTLCache ''k'' (1::nat) (Some 5) 0) ''k'')))"
  by (simp add: TTLCache_get_def TTLCache_set_def new_TTLCache_def)

text \<open>
  C2, amended to the boundary the code draws. After \<^verbatim>\<open>set(key, v, ttl)\<close> at time \<open>t0\<close> the
  entry expires at \<open>e = t0 + ttl\<close> (the default TTL when none is given). A \<^verbatim>\<open>get\<close> at any
  \<open>now \<le> e\<close> returns exactly \<open>v\<close> and leaves the cache as it is; a \<^verbatim>\<open>get\<close> at any
  \<open>now > e\<close> returns absent and removes the entry, after which a \<^verbatim>\<open>get\<close> at any time
  whatever returns absent again. In general a \<^verbatim>\<open>get\<close> returns a value exactly when the
  store holds a record for the key with \<open>now \<le> expiresAt\<close>.
\<close>

theorem C2_cache_get_after_set:
  fixes c :: "('k, 'v) TTLCache"
  defines "e \<equiv> \<lambda>c ttlMs t0. t0 + (case ttlMs of Some t \<Rightarrow> t | None \<Rightarrow> defaultTtlMs c)"
  shows "(now \<le> e c ttlMs t0 \<longrightarrow>
            TTLCache_get (TTLCache_set c key v ttlMs t0) key now = (Some v, TTLCache_set c key v ttlMs t0))
       \<and> (e c ttlMs t0 < now \<longrightarrow>
            fst (TTLCache_get (TTLCache_set c key v ttlMs t0) key now) = None
          \<and> store (snd (TTLCache_get (TTLCache_set c key v ttlMs t0) key now)) key = None
          \<and> (\<forall>later. fst (TTLCache_get (snd (TTLCache_get (TTLCache_set c key v ttlMs t0) key now)) key later) = None))
       \<and> (\<forall>w. fst (TTLCache_get c key now) = Some w \<longleftrightarrow>
            (\<exists>r. store c key = Some r \<and> cr_value r = w \<and> now \<le> expiresAt r))"
proof (intro conjI impI allI)
  let ?c1 = "TTLCache_set c key v ttlMs t0"
  let ?r = "\<lparr>cr_value = v, expiresAt = e c ttlMs t0\<rparr>"
  have st: "store ?c1 key = Some ?r"
    by (simp add: TTLCache_set_store e_def)
  {
    assume "now \<le> e c ttlMs t0"
    with st show "TTLCache_get ?c1 key now = (Some v, ?c1)"
      using TTLCache_get_hit [of ?c1 key ?r now] by simp
  }
  {
    assume late: "e c ttlMs t0 < now"
    with st have g: "TTLCache_get ?c1 key now = (None, ?c1\<lparr>store := (store ?c1)(key := None)\<rparr>)"
      using TTLCache_get_expired [of ?c1 key ?r now] by simp
    show "fst (TTLCache_get ?c1 key now) = None"
      by (simp add: g)
    show gone: "store (snd (TTLCache_get ?c1 key now)) key = None"
      by (simp add: g)
    fix later
    show "fst (TTLCache_get (snd (TTLCache_get ?c1 key now)) key later) = None"
      using TTLCache_get_absent [OF gone] by simp
  }
  fix w
  show "fst (TTLCache_get c key now) = Some w \<longleftrightarrow>
          (\<exists>r. store c key = Some r \<and> cr_value r = w \<and> now \<le> expiresAt r)"
    by (auto simp: TTLCache_get_def split: option.splits if_splits)
qed

theorem C2_cache_get_after_set_witness:
  "TTLCache_get (TTLCache_set new_TTLCache ''k'' (7::nat) None 100) ''k'' 21600100
     = (Some 7, TTLCache_set new_TTLCache ''k'' 7 None 100)
   \<and> fst (TTLCache_get (TTLCache_set new_TTLCache ''k'' (7::nat) None 100) ''k'' 21600101) = None
   \<and> fst (TTLCache_get (snd (TTLCache_get (TTLCache_set new_TTLCache ''k'' (7::nat) None 100) ''k'' 21600101)) ''k'' 0) = None"
proof -
  have d: "defaultTtlMs (new_TTLCache :: (string, nat) TTLCache) = 21600000"
    by (simp add: new_TTLCache_def)
  show ?thesis
    using C2_cache_get_after_set [where now = 21600100 and c = "new_TTLCache :: (string, nat) TTLCache"
          and ttlMs = None and ?t0.0 = 100 and key = "''k''" and v = 7]
      C2_cache_get_after_set [where now = 21600101 and c = "new_TTLCache :: (string, nat) TTLCache"
          and ttlMs = None and ?t0.0 = 100 and key = "''k''" and v = 7]
    by (simp add: d)
qed

section \<open>Properties of the lodging tier selection\<close>

lemma selectStayTiers_Nil: "selectStayTiers [] = []"
  by (simp add: selectStayTiers_def desiredTypes_def)

lemma selectStayTiers_nonempty:
  "options \<noteq> [] \<Longrightarrow>
   selectStayTiers options =
     map (\<lambda>t. case find (\<lambda>option. s_type option = t) options of Some s \<Rightarrow> s | None \<Rightarrow> hd options)
       [Budget, Mid, Premium]"
  by (cases options) (simp_all add: selectStayTiers_def desiredTypes_def split: option.splits)

lemma find_tier_Some:
  "find (\<lambda>option. s_type option = t) options = Some s \<Longrightarrow> s \<in> set options \<and> s_type s = t"
  by (auto simp: find_Some_iff)

lemma find_tier_present:
  "t \<in> s_type ` set options \<Longrightarrow> \<exists>s. find (\<lambda>option. s_type option = t) options = Some s"
  by (cases "find (\<lambda>option. s_type option = t) options") (auto simp: find_None_iff)

lemma all_tiers: "(\<forall>t. P t) \<longleftrightarrow> P Budget \<and> P Mid \<and> P Premium"
  by (metis StayType.exhaust)

text \<open>
  C9, as the spec states it: no two selected entries share a tier. When the options lack a
  tier, \<^verbatim>\<open>options.find(() => true)\<close> fills its place with the first option: from a single
  budget option the selection is that option three times.
\<close>

theorem C9_single_option_selected_thrice:
  "selectStayTiers [stayA] = [stayA, stayA, stayA]
   \<and> \<not> distinct (map s_type (selectStayTiers [stayA]))"
  by (simp add: selectStayTiers_def desiredTypes_def)

text \<open>
  C9, amended. The selection is empty for an empty list; otherwise it has three entries, for
  budget, mid and premium in this order: the first option of the tier when the options
  have one, else the first option of the list. So it never has more than three entries,
  and when the options offer every tier it holds exactly one option of each tier.
\<close>

theorem C9_selectStayTiers_one_per_offered_tier:
  "(options = [] \<longrightarrow> selectStayTiers options = [])
   \<and> (options \<noteq> [] \<longrightarrow>
        selectStayTiers options =
          map (\<lambda>t. case find (\<lambda>option. s_type option = t) options of Some s \<Rightarrow> s | None \<Rightarrow> hd options)
            [Budget, Mid, Premium])
   \<and> length (selectStayTiers options) \<le> 3
   \<and> ((\<forall>t. \<exists>stay \<in> set options. s_type stay = t) \<longrightarrow>
        map s_type (selectStayTiers options) = [Budget, Mid, Premium])"
proof (intro conjI impI)
  show "selectStayTiers options = []" if "options = []"
    using that by (simp add: selectStayTiers_Nil)
  show "selectStayTiers options =
          map (\<lambda>t. case find (\<lambda>option. s_type option = t) options of Some s \<Rightarrow> s | None \<Rightarrow> hd options)
            [Budget, Mid, Premium]" if "options \<noteq> []"
    using that by (rule selectStayTiers_nonempty)
  show "length (selectStayTiers options) \<le> 3"
    by (cases "options = []") (simp_all add: selectStayTiers_Nil selectStayTiers_nonempty)
  assume all: "\<forall>t. \<exists>stay \<in> set options. s_type stay = t"
  then have "options \<noteq> []" by auto
  moreover have "s_type (case find (\<lambda>option. s_type option = t) options of Some s \<Rightarrow> s | None \<Rightarrow> hd options) = t" for t
  proof -
    from all obtain stay where "stay \<in> set options" "s_type stay = t" by blast
    then have "t \<in> s_type ` set options" by force
    then obtain s where "find (\<lambda>option. s_type option = t) options = Some s"
      using find_tier_present by blast
    then show ?thesis using find_tier_Some by fastforce
  qed
  ultimately show "map s_type (selectStayTiers options) = [Budget, Mid, Premium]"
    by (simp add: selectStayTiers_nonempty)
qed

theorem C9_selectStayTiers_one_per_offered_tier_witness:
  "(\<forall>t. \<exists>stay \<in> set [stayC, stayA, stayB, stayA]. s_type stay = t)
   \<and> map s_type (selectStayTiers [stayC, stayA, stayB, stayA]) = [Budget, Mid, Premium]
   \<and> selectStayTiers [stayC, stayA, stayB, stayA] = [stayA, stayB, stayC]"
  using C9_selectStayTiers_one_per_offered_tier [of "[stayC, stayA, stayB, stayA]"]
  by (simp add: all_tiers stayA_def stayB_def stayC_def)

section \<open>Properties of the provenance metadata\<close>

lemma providerNames_no_cache: "map_of providerNames name = Some v \<Longrightarrow> \<not> prefix ''cache:'' v"
  by (auto simp: providerNames_def split: if_splits)

lemma replace_first_decomp:
  "replace_first pat rep s = s
   \<or> (\<exists>pre post. s = pre @ pat @ post \<and> replace_first pat rep s = pre @ rep @ post)"
proof (induction s)
  case Nil
  then show ?case by auto
next
  case (Cons c cs)
  show ?case
  proof (cases "prefix pat (c # cs)")
    case True
    then obtain post where "c # cs = pat @ post" by (auto simp: prefix_def)
    moreover have "replace_first pat rep (c # cs) = rep @ drop (length pat) (c # cs)"
      using True by simp
    ultimately have "c # cs = [] @ pat @ post \<and> replace_first pat rep (c # cs) = [] @ rep @ post"
      by simp
    then show ?thesis by blast
  next
    case False
    from Cons.IH show ?thesis
    proof
      assume "replace_first pat rep cs = cs"
      with False show ?thesis by simp
    next
      assume "\<exists>pre post. cs = pre @ pat @ post \<and> replace_first pat rep cs = pre @ rep @ post"
      then obtain pre post where "cs = pre @ pat @ post" "replace_first pat rep cs = pre @ rep @ post"
        by blast
      then have "c # cs = (c # pre) @ pat @ post \<and> replace_first pat rep (c # cs) = (c # pre) @ rep @ post"
        using False by simp
      then show ?thesis by blast
    qed
  qed
qed

lemma cache_overlap:
  assumes "0 < k" "k < 6"
  shows "\<not> prefix (drop k ''cache:'') (cache_arrow @ post)"
proof -
  from assms have "k = 1 \<or> k = 2 \<or> k = 3 \<or> k = 4 \<or> k = 5"
    by arith
  then show ?thesis
    by (auto simp: cache_arrow_def)
qed

lemma replace_no_cache:
  assumes n: "\<not> prefix ''cache:'' s"
  shows "\<not> prefix ''cache:'' (replace_first ''cache:'' cache_arrow s)"
proof
  assume p: "prefix ''cache:'' (replace_first ''cache:'' cache_arrow s)"
  from replace_first_decomp [of "''cache:''" cache_arrow s] n p
  obtain pre post where s: "s = pre @ ''cache:'' @ post"
    and r: "replace_first ''cache:'' cache_arrow s = pre @ cache_arrow @ post"
    by auto
  from p r have "prefix ''cache:'' (pre @ cache_arrow @ post)" by simp
  then consider "prefix ''cache:'' pre"
    | us where "''cache:'' = pre @ us" "prefix us (cache_arrow @ post)"
    by (auto simp: prefix_append)
  then show False
  proof cases
    case 1
    with s n show False by (auto simp: prefix_def)
  next
    case 2
    from 2(1) [THEN arg_cong, of "drop (length pre)"]
    have us: "us = drop (length pre) ''cache:''"
      by simp
    from 2(1) [THEN arg_cong, of length] have "length ''cache:'' = length (pre @ us)"
      .
    then have len: "length pre \<le> 6"
      by simp
    have "0 < length pre"
      using s n by (auto simp: prefix_def)
    moreover have "length pre \<noteq> 6"
    proof
      assume "length pre = 6"
      with 2(1) [THEN arg_cong, of "take 6"] have "pre = ''cache:''" by simp
      with s n show False by (auto simp: prefix_def)
    qed
    ultimately have "length pre < 6"
      using len by arith
    from cache_overlap [OF \<open>0 < length pre\<close> this] 2(2) us show False
      by simp
  qed
qed


lemma formatProviderName_no_cache:
  "\<not> startsWith name ''cache:'' \<Longrightarrow> \<not> startsWith (formatProviderName name) ''cache:''"
  unfolding startsWith_def formatProviderName_def
  by (cases "map_of providerNames name") (simp_all add: replace_no_cache providerNames_no_cache)

text \<open>
  C7. For every list of provenance tags gathered during a request: the \<^verbatim>\<open>cached\<close> flag of
  the metadata holds exactly when some tag begins with \<^verbatim>\<open>cache:\<close>; no displayed source
  name begins with \<^verbatim>\<open>cache:\<close>; when some tag is not cache-prefixed the displayed list is
  the readable names of exactly the tags that are not cache-prefixed, in their order; and
  when every tag is cache-prefixed (or there is none) it is the single sentinel
  \<^verbatim>\<open>mock-data\<close>.
\<close>

theorem C7_providersFromContext:
  fixes ctx :: "('k, 'v) ProviderContext" and stamp :: string
  defines "used \<equiv> providersUsed ctx"
  defines "meta \<equiv> providersFromContext stamp ctx"
  shows "(meta_cached meta \<longleftrightarrow> (\<exists>tag \<in> set used. startsWith tag ''cache:''))
       \<and> (\<forall>shown \<in> set (meta_providers meta). \<not> startsWith shown ''cache:'')
       \<and> ((\<exists>tag \<in> set used. \<not> startsWith tag ''cache:'') \<longrightarrow>
            meta_providers meta = map formatProviderName (filter (\<lambda>tag. \<not> startsWith tag ''cache:'') used))
       \<and> ((\<forall>tag \<in> set used. startsWith tag ''cache:'') \<longrightarrow> meta_providers meta = [''mock-data''])"
proof (intro conjI impI)
  let ?shown = "filter (\<lambda>tag. \<not> startsWith tag ''cache:'') used"
  have providers: "meta_providers meta = (if ?shown \<noteq> [] then map formatProviderName ?shown else [''mock-data''])"
    by (simp add: meta_def used_def providersFromContext_def Let_def)
  show "meta_cached meta \<longleftrightarrow> (\<exists>tag \<in> set used. startsWith tag ''cache:'')"
    by (simp add: meta_def used_def providersFromContext_def Let_def list_ex_iff)
  show "\<forall>shown \<in> set (meta_providers meta). \<not> startsWith shown ''cache:''"
  proof (cases "?shown = []")
    case True
    then show ?thesis by (simp add: providers startsWith_def)
  next
    case False
    then show ?thesis
      by (auto simp: providers dest: formatProviderName_no_cache)
  qed
  show "meta_providers meta = map formatProviderName ?shown"
    if "\<exists>tag \<in> set used. \<not> startsWith tag ''cache:''"
    using that by (auto simp: providers filter_empty_conv)
  show "meta_providers meta = [''mock-data'']" if "\<forall>tag \<in> set used. startsWith tag ''cache:''"
    using that by (simp add: providers filter_empty_conv)
qed

theorem C7_providersFromContext_witness:
  "meta_cached (providersFromContext ''2025-11-20T00:00:00.000Z''
      \<lparr>cache = (new_TTLCache :: (string, nat) TTLCache),
       providersUsed = [''cache:opentripmap'', ''weather:mock'', ''stays:mock'']\<rparr>)
   \<and> meta_providers (providersFromContext ''2025-11-20T00:00:00.000Z''
      \<lparr>cache = (new_TTLCache :: (string, nat) TTLCache),
       providersUsed = [''cache:opentripmap'', ''weather:mock'', ''stays:mock'']\<rparr>)
      = [''Weather (mock)'', ''Mock stays'']
   \<and> meta_providers (providersFromContext ''2025-11-20T00:00:00.000Z''
      \<lparr>cache = (new_TTLCache :: (string, nat) TTLCache),
       providersUsed = [''cache:opentripmap'', ''cache:stays'']\<rparr>)
      = [''mock-data'']"
  using C7_providersFromContext [where ctx = "\<lparr>cache = (new_TTLCache :: (string, nat) TTLCache),
       providersUsed = [''cache:opentripmap'', ''weather:mock'', ''stays:mock'']\<rparr>"
       and stamp = "''2025-11-20T00:00:00.000Z''"]
    C7_providersFromContext [where ctx = "\<lparr>cache = (new_TTLCache :: (string, nat) TTLCache),
       providersUsed = [''cache:opentripmap'', ''cache:stays'']\<rparr>"
       and stamp = "''2025-11-20T00:00:00.000Z''"]
  by (simp add: startsWith_def formatProviderName_def providerNames_def)

section \<open>Properties of the cost estimate\<close>

lemma at_index_0: "at_index xs 0 = (if xs = [] then None else Some (xs ! 0))"
  by (simp add: at_index_def)

lemma at_index_min:
  "at_index xs (min (int k) (int (length xs) - 1)) =
     (if xs = [] then None else if k < length xs then Some (xs ! k) else Some (last xs))"
  by (cases "xs = []") (auto simp: at_index_def min_def last_conv_nth nat_diff_distrib')

lemma flight_components:
  fixes flights :: "FlightsResult option" and originProvided :: bool
  defines "prices \<equiv> (case flights of None \<Rightarrow> []
                      | Some r \<Rightarrow> sort (filter (\<lambda>price. 0 < price) (map priceUSD (f_options r))))"
  shows "sorted prices
       \<and> flightLow flights originProvided = (if prices = [] then 0 else prices ! 0)
       \<and> flightMid flights originProvided =
           (if 2 \<le> length prices then prices ! 1 else flightLow flights originProvided)
       \<and> flightHigh flights originProvided =
           (if 3 \<le> length prices then prices ! 2 else flightMid flights originProvided)"
proof (cases flights)
  case None
  then show ?thesis
    by (simp add: prices_def flightLow_def flightMid_def flightHigh_def flightPrices_def nullish_def)
next
  case (Some r)
  have fp: "flightPrices flights = Some prices"
    by (simp add: Some prices_def flightPrices_def Number_isFinite_def)
  have low: "flightLow flights originProvided = (if prices = [] then 0 else prices ! 0)"
    by (simp add: flightLow_def fp at_index_0 nullish_def)
  have mid: "flightMid flights originProvided =
           (if 2 \<le> length prices then prices ! 1 else flightLow flights originProvided)"
    using at_index_min [of prices 1]
    by (cases prices rule: list.exhaust; cases "tl prices")
       (auto simp add: flightMid_def fp nullish_def low)
  have high: "flightHigh flights originProvided =
           (if 3 \<le> length prices then prices ! 2 else flightMid flights originProvided)"
  proof -
    consider "prices = []" | a where "prices = [a]" | a b where "prices = [a, b]"
      | "3 \<le> length prices"
      by (cases prices rule: list.exhaust; cases "tl prices"; cases "tl (tl prices)") auto
    then show ?thesis
    proof cases
      case 4
      then show ?thesis
        using at_index_min [of prices 2] by (auto simp: flightHigh_def fp nullish_def)
    qed (simp_all add: flightHigh_def fp nullish_def at_index_def mid low)
  qed
  have "sorted prices"
    by (simp add: prices_def Some)
  with low mid high show ?thesis by simp
qed

lemma flights_mono:
  "flightLow flights originProvided \<le> flightMid flights originProvided
   \<and> flightMid flights originProvided \<le> flightHigh flights originProvided"
proof -
  define prices where "prices = (case flights of None \<Rightarrow> []
                      | Some r \<Rightarrow> sort (filter (\<lambda>price. 0 < price) (map priceUSD (f_options r))))"
  have s: "sorted prices" by (simp add: prices_def split: option.splits)
  have "prices ! 0 \<le> prices ! 1" if "2 \<le> length prices"
    using s that by (simp add: sorted_iff_nth_mono)
  moreover have "prices ! 1 \<le> prices ! 2" if "3 \<le> length prices"
    using s that by (simp add: sorted_iff_nth_mono)
  ultimately show ?thesis
    using flight_components [of flights originProvided] unfolding prices_def [symmetric]
    by auto
qed



text \<open>
  C3, as the spec states it: the flight components are the cheapest prices of the option
  list. The estimator drops every price that is not positive before it sorts
  (\<^verbatim>\<open>.filter((price) => Number.isFinite(price) && price > 0)\<close>; the live path prices an
  offer without a readable total at 0), so with the prices 0, 300 and 200 the low
  component is 200, not the cheapest price 0.
\<close>

theorem C3_zero_price_is_skipped:
  "flightLow (Some \<lparr>f_note = None, f_options = [flightAt 0, flightAt 300, flightAt 200]\<rparr>) True = 200
   \<and> sort (map priceUSD (f_options \<lparr>f_note = None, f_options = [flightAt 0, flightAt 300, flightAt 200]\<rparr>)) ! 0 = 0"
  by (simp add: flightLow_def flightPrices_def flightAt_def nullish_def at_index_def Number_isFinite_def)

text \<open>
  C3, amended: the components are taken from the positive prices. With \<open>prices\<close> the
  positive prices of the option list in ascending order (none when there is no flight
  result), the low component is the first of them, or 0 when there is none; the mid
  component is the second, or the low component when there are fewer than two; the high
  component is the third, or the mid component when there are fewer than three.
\<close>

theorem C3_flight_components:
  fixes flights :: "FlightsResult option" and originProvided :: bool
  defines "prices \<equiv> (case flights of None \<Rightarrow> []
                      | Some r \<Rightarrow> sort (filter (\<lambda>price. 0 < price) (map priceUSD (f_options r))))"
  shows "sorted prices
       \<and> flightLow flights originProvided = (if prices = [] then 0 else prices ! 0)
       \<and> flightMid flights originProvided =
           (if 2 \<le> length prices then prices ! 1 else flightLow flights originProvided)
       \<and> flightHigh flights originProvided =
           (if 3 \<le> length prices then prices ! 2 else flightMid flights originProvided)"
  unfolding prices_def by (rule flight_components)

theorem C3_flight_components_witness:
  "flightLow (Some \<lparr>f_note = None, f_options = [flightAt 512, flightAt 0, flightAt 425]\<rparr>) True = 425
   \<and> flightMid (Some \<lparr>f_note = None, f_options = [flightAt 512, flightAt 0, flightAt 425]\<rparr>) True = 512
   \<and> flightHigh (Some \<lparr>f_note = None, f_options = [flightAt 512, flightAt 0, flightAt 425]\<rparr>) True = 512
   \<and> flightLow (Some \<lparr>f_note = Some ''No origin provided.'', f_options = []\<rparr>) False = 0
   \<and> flightHigh None False = 0"
  using C3_flight_components [of "Some \<lparr>f_note = None, f_options = [flightAt 512, flightAt 0, flightAt 425]\<rparr>" True]
    C3_flight_components [of "Some \<lparr>f_note = Some ''No origin provided.'', f_options = []\<rparr>" False]
    C3_flight_components [of None False]
  by (simp add: flightAt_def)

lemma stayLookup_snoc: "stayLookup (stays @ [s]) = (stayLookup stays)(s_type s \<mapsto> s)"
  by (simp add: stayLookup_def)

lemma stayLookup_Some:
  "stayLookup stays t = Some s \<Longrightarrow> s \<in> set stays \<and> s_type s = t"
proof (induction stays arbitrary: s rule: rev_induct)
  case Nil
  then show ?case by (simp add: stayLookup_def)
next
  case (snoc x xs)
  then show ?case
    by (cases "s_type x = t") (auto simp: stayLookup_snoc)
qed

lemma Math_round_mono: "x \<le> y \<Longrightarrow> Math_round x \<le> Math_round y"
  by (simp add: Math_round_def floor_mono)

lemma stays_mono:
  assumes nonneg: "\<forall>s \<in> set stays. 0 \<le> totalUSD s"
    and tiers: "\<forall>a \<in> set stays. \<forall>b \<in> set stays.
        (s_type a = Budget \<and> s_type b \<noteq> Budget \<or> s_type a = Mid \<and> s_type b = Premium)
          \<longrightarrow> totalUSD a \<le> totalUSD b"
  shows "stayBudget stays \<le> stayMid stays \<and> stayMid stays \<le> stayPremium stays"
proof -
  have look: "stayLookup stays t = Some s \<Longrightarrow> s \<in> set stays \<and> s_type s = t" for t s
    by (rule stayLookup_Some)
  show ?thesis
  proof (cases "stayLookup stays Budget")
    case None
    note b = None
    show ?thesis
    proof (cases "stayLookup stays Mid")
      case None
      then show ?thesis
        using b look [of Premium] nonneg
        by (cases "stayLookup stays Premium") (auto simp: stayBudget_def stayMid_def stayPremium_def nullish_def)
    next
      case (Some m)
      then show ?thesis
        using b look [of Premium] look [of Mid m] nonneg tiers
        by (cases "stayLookup stays Premium") (auto simp: stayBudget_def stayMid_def stayPremium_def nullish_def)
    qed
  next
    case (Some bs)
    note b = Some
    show ?thesis
    proof (cases "stayLookup stays Mid")
      case None
      then show ?thesis
        using b look [of Premium] look [of Budget bs] nonneg tiers
        by (cases "stayLookup stays Premium") (auto simp: stayBudget_def stayMid_def stayPremium_def nullish_def)
    next
      case (Some m)
      then show ?thesis
        using b look [of Premium] look [of Mid m] look [of Budget bs] nonneg tiers
        by (cases "stayLookup stays Premium") (auto simp: stayBudget_def stayMid_def stayPremium_def nullish_def)
    qed
  qed
qed

text \<open>
  C4, as the spec states it: low \<open>\<le>\<close> mid \<open>\<le>\<close> high for any 0 to 3 selected lodging options.
  The lodging components are the totals found under the tiers' names, whatever their
  amounts: with a budget option at 500 and a mid option at 100 for one day, the low
  estimate is 545 and the mid estimate 175.
\<close>

theorem C4_budget_dearer_than_mid:
  "lowUSD (computeCostEstimate (\<lambda>_. ''$0'') 1 [stayA\<lparr>totalUSD := 500\<rparr>, stayB\<lparr>totalUSD := 100\<rparr>]
        None None False \<lparr>cn_flights = None, cn_stays = None, cn_places = None, cn_weather = None\<rparr>) = 545
   \<and> midUSD (computeCostEstimate (\<lambda>_. ''$0'') 1 [stayA\<lparr>totalUSD := 500\<rparr>, stayB\<lparr>totalUSD := 100\<rparr>]
        None None False \<lparr>cn_flights = None, cn_stays = None, cn_places = None, cn_weather = None\<rparr>) = 175"
  by (simp add: computeCostEstimate_def Let_def flightLow_def flightMid_def flightPrices_def nullish_def
      stayBudget_def stayMid_def stayLookup_def Math_round_def dailySpendLow_def dailySpendMid_def
      stayA_def stayB_def)

text \<open>
  C4, amended. For every day count that is not negative, every flight result (or none),
  budget and notes, and every list of selected lodging options whose totals are not
  negative and rise with the tier (a budget option costs no more than a mid or premium
  one, a mid option no more than a premium one), the estimate satisfies
  low \<open>\<le>\<close> mid \<open>\<le>\<close> high.
\<close>

theorem C4_cost_estimate_monotone:
  assumes days: "0 \<le> days"
    and nonneg: "\<forall>s \<in> set stays. 0 \<le> totalUSD s"
    and tiers: "\<forall>a \<in> set stays. \<forall>b \<in> set stays.
        (s_type a = Budget \<and> s_type b \<noteq> Budget \<or> s_type a = Mid \<and> s_type b = Premium)
          \<longrightarrow> totalUSD a \<le> totalUSD b"
  shows "lowUSD (computeCostEstimate formatCurrency days stays flights budget originProvided notes)
           \<le> midUSD (computeCostEstimate formatCurrency days stays flights budget originProvided notes)
       \<and> midUSD (computeCostEstimate formatCurrency days stays flights budget originProvided notes)
           \<le> highUSD (computeCostEstimate formatCurrency days stays flights budget originProvided notes)"
proof -
  from days have act: "real_of_int (dailySpendLow * days) \<le> real_of_int (dailySpendMid * days)"
      "real_of_int (dailySpendMid * days) \<le> real_of_int (dailySpendHigh * days)"
    by (simp_all add: dailySpendLow_def dailySpendMid_def dailySpendHigh_def)
  from flights_mono [of flights originProvided] stays_mono [OF nonneg tiers] act
  show ?thesis
    by (auto simp: computeCostEstimate_def Let_def intro!: Math_round_mono)
qed


text \<open>
  The lodging options that \<^verbatim>\<open>planTrip\<close> selects from the stays provider, for any number of
  nights, and their order of price.
\<close>

lemma enumerate_MOCK_STAYS:
  "enumerate 0 MOCK_STAYS = zip [0, 1, 2, 3, 4, 5, 6, 7, 8, 9] MOCK_STAYS"
  by (simp add: MOCK_STAYS_def)

lemma selected_mock_stays:
  "selectStayTiers (withPricing MOCK_STAYS params) =
     [\<lparr>s_name = ''Old Town Guesthouse'', s_type = Budget, pricePerNightUSD = 35,
       totalUSD = real_of_int (35 * nights params), s_rating = Some 4.4,
       s_address = Some ''Soi Moonmuang 8, Chiang Mai'', s_link = Some ''https://example.com/old-town-guesthouse''\<rparr>,
      \<lparr>s_name = ''Nimman Boutique Hotel'', s_type = Mid, pricePerNightUSD = 86,
       totalUSD = real_of_int (86 * nights params), s_rating = Some 4.6,
       s_address = Some ''Nimmanahaeminda Rd., Chiang Mai'', s_link = Some ''https://example.com/nimman-boutique''\<rparr>,
      \<lparr>s_name = ''Ping River Retreat'', s_type = Premium, pricePerNightUSD = 204,
       totalUSD = real_of_int (204 * nights params), s_rating = Some 4.8,
       s_address = Some ''Charoenrat Rd., Chiang Mai'', s_link = Some ''https://example.com/ping-river-retreat''\<rparr>]"
  by (simp add: withPricing_def enumerate_MOCK_STAYS MOCK_STAYS_def selectStayTiers_def desiredTypes_def
      Let_def Math_round_def basePrices_def)


lemma selected_mock_stays_in_tier_order:
  assumes "0 \<le> nights params"
  shows "(\<forall>s \<in> set (selectStayTiers (withPricing MOCK_STAYS params)). 0 \<le> totalUSD s)
    \<and> (\<forall>a \<in> set (selectStayTiers (withPricing MOCK_STAYS params)).
        \<forall>b \<in> set (selectStayTiers (withPricing MOCK_STAYS params)).
          (s_type a = Budget \<and> s_type b \<noteq> Budget \<or> s_type a = Mid \<and> s_type b = Premium)
            \<longrightarrow> totalUSD a \<le> totalUSD b)"
  using assms unfolding selected_mock_stays by simp

theorem C4_cost_estimate_monotone_witness:
  "lowUSD (computeCostEstimate (\<lambda>_. ''$600'') 4 (selectStayTiers (withPricing MOCK_STAYS four_nights))
      (Some \<lparr>f_note = None, f_options = [flightAt 425, flightAt 468, flightAt 512]\<rparr>) (Some 600) True
      \<lparr>cn_flights = None, cn_stays = None, cn_places = None, cn_weather = None\<rparr>) = 745
   \<and> midUSD (computeCostEstimate (\<lambda>_. ''$600'') 4 (selectStayTiers (withPricing MOCK_STAYS four_nights))
      (Some \<lparr>f_note = None, f_options = [flightAt 425, flightAt 468, flightAt 512]\<rparr>) (Some 600) True
      \<lparr>cn_flights = None, cn_stays = None, cn_places = None, cn_weather = None\<rparr>) = 1112
   \<and> highUSD (computeCostEstimate (\<lambda>_. ''$600'') 4 (selectStayTiers (withPricing MOCK_STAYS four_nights))
      (Some \<lparr>f_note = None, f_options = [flightAt 425, flightAt 468, flightAt 512]\<rparr>) (Some 600) True
      \<lparr>cn_flights = None, cn_stays = None, cn_places = None, cn_weather = None\<rparr>) = 1848"
proof -
  have n: "0 \<le> nights four_nights"
    by (simp add: four_nights_def)
  note order = selected_mock_stays_in_tier_order [OF n]
  have "lowUSD (computeCostEstimate (\<lambda>_. ''$600'') 4 (selectStayTiers (withPricing MOCK_STAYS four_nights))
      (Some \<lparr>f_note = None, f_options = [flightAt 425, flightAt 468, flightAt 512]\<rparr>) (Some 600) True
      \<lparr>cn_flights = None, cn_stays = None, cn_places = None, cn_weather = None\<rparr>)
    \<le> midUSD (computeCostEstimate (\<lambda>_. ''$600'') 4 (selectStayTiers (withPricing MOCK_STAYS four_nights))
      (Some \<lparr>f_note = None, f_options = [flightAt 425, flightAt 468, flightAt 512]\<rparr>) (Some 600) True
      \<lparr>cn_flights = None, cn_stays = None, cn_places = None, cn_weather = None\<rparr>)"
    using C4_cost_estimate_monotone [OF _ order [THEN conjunct1] order [THEN conjunct2], of 4]
    by simp
  then show ?thesis
    unfolding selected_mock_stays
    by (simp add: computeCostEstimate_def Let_def flightLow_def flightMid_def flightHigh_def
        flightPrices_def nullish_def at_index_def Number_isFinite_def flightAt_def
        stayBudget_def stayMid_def stayPremium_def stayLookup_def Math_round_def
        dailySpendLow_def dailySpendMid_def dailySpendHigh_def four_nights_def)
qed


section \<open>Properties of the interest score\<close>

lemma foldl_Set_add:
  "set (foldl Set_add acc xs) = set acc \<union> set xs \<and> (distinct acc \<longrightarrow> distinct (foldl Set_add acc xs))"
  by (induction xs arbitrary: acc) (auto simp: Set_add_def)

lemma set_new_Set: "set (new_Set xs) = set xs"
  using foldl_Set_add [of "[]" xs] by (simp add: new_Set_def)

lemma distinct_new_Set: "distinct (new_Set xs)"
  using foldl_Set_add [of "[]" xs] by (simp add: new_Set_def)

lemma score_foldl:
  "foldl (\<lambda>score interest.
            let score1 = (if A interest then score + 2 else score)
            in if B interest then score1 + 1.5 else score1) acc ks
     = acc + 2 * real (length (filter A ks)) + 1.5 * real (length (filter B ks))"
  by (induction ks arbitrary: acc) (simp_all add: Let_def field_simps)

lemma computeInterestScore_eq:
  "computeInterestScore place ks =
     1 + 2 * real (length (filter (\<lambda>k. str_includes (toLowerCase (p_category place)) k) ks))
       + 1.5 * real (length (filter (\<lambda>k. str_includes (toLowerCase (p_name place)) k) ks))"
  unfolding computeInterestScore_def
  by (cases "ks = []") (simp_all only: score_foldl if_True if_False, simp)

lemma length_filter_card:
  "distinct ks \<Longrightarrow> length (filter P ks) = card {k \<in> set ks. P k}"
  by (metis distinct_filter distinct_card set_filter)

text \<open>
  C6. The score is that of \<^verbatim>\<open>groupPlacesForItinerary\<close>: \<^verbatim>\<open>computeInterestScore\<close> on the
  set of the lower-cased interests; \<open>keys\<close> is this set, each keyword counted once
  whatever its letter case and however often the list repeats it. Without interests every
  candidate scores 1. In general the score is 1, plus 2 for each keyword that is a
  substring of the lower-cased category, plus 1.5 for each keyword that is a substring of
  the lower-cased name. Hence a candidate whose category equals an interest keyword (even
  up to letter case) scores at least 3, and strictly more than a candidate in whose category
  and name no keyword occurs, which scores 1.
\<close>

theorem C6_interest_score:
  fixes interests :: "string list option"
  defines "keys \<equiv> set (map toLowerCase (nullish interests []))"
  defines "score \<equiv> \<lambda>place. computeInterestScore place (interestSet interests)"
  shows "(keys = {} \<longrightarrow> score place = 1)
       \<and> score place =
           1 + 2 * real (card {k \<in> keys. str_includes (toLowerCase (p_category place)) k})
             + 1.5 * real (card {k \<in> keys. str_includes (toLowerCase (p_name place)) k})
       \<and> ((\<exists>k \<in> set (nullish interests []). toLowerCase (p_category place) = toLowerCase k)
            \<and> (\<forall>k \<in> keys. \<not> str_includes (toLowerCase (p_category other)) k
                           \<and> \<not> str_includes (toLowerCase (p_name other)) k)
            \<longrightarrow> score other = 1 \<and> score other < score place)"
proof -
  have ks: "set (interestSet interests) = keys" "distinct (interestSet interests)"
    by (simp_all add: interestSet_def keys_def set_new_Set distinct_new_Set)
  have eq: "score q =
           1 + 2 * real (card {k \<in> keys. str_includes (toLowerCase (p_category q)) k})
             + 1.5 * real (card {k \<in> keys. str_includes (toLowerCase (p_name q)) k})" for q
    unfolding score_def computeInterestScore_eq
    by (simp add: length_filter_card [OF ks(2)] ks(1))
  have empty: "score place = 1" if "keys = {}"
    using that by (simp add: eq)
  have higher: "score other = 1 \<and> score other < score place"
    if hit: "\<exists>k \<in> set (nullish interests []). toLowerCase (p_category place) = toLowerCase k"
      and miss: "\<forall>k \<in> keys. \<not> str_includes (toLowerCase (p_category other)) k
                           \<and> \<not> str_includes (toLowerCase (p_name other)) k"
  proof -
    from miss have e: "{k \<in> keys. str_includes (toLowerCase (p_category other)) k} = {}"
        "{k \<in> keys. str_includes (toLowerCase (p_name other)) k} = {}"
      by blast+
    have o: "score other = 1"
      unfolding eq [of other] e by simp
    from hit have "toLowerCase (p_category place) \<in> keys"
      by (auto simp: keys_def)
    moreover have "str_includes (toLowerCase (p_category place)) (toLowerCase (p_category place))"
      by (simp add: str_includes_def)
    ultimately have "{k \<in> keys. str_includes (toLowerCase (p_category place)) k} \<noteq> {}"
      by blast
    moreover have "finite {k \<in> keys. str_includes (toLowerCase (p_category place)) k}"
      by (simp add: keys_def)
    ultimately have "1 \<le> card {k \<in> keys. str_includes (toLowerCase (p_category place)) k}"
      by (simp add: Suc_le_eq card_gt_0_iff)
    then have "3 \<le> score place"
      unfolding eq [of place] by simp
    with o show ?thesis by simp
  qed
  from empty eq [of place] higher show ?thesis by blast
qed

theorem C6_interest_score_witness:
  "computeInterestScore place_wat (interestSet (Some [''Food'', ''nature''])) = 1
   \<and> computeInterestScore place_wat (interestSet (Some [''Food'', ''nature'']))
       < computeInterestScore place_coffee (interestSet (Some [''Food'', ''nature'']))
   \<and> computeInterestScore place_coffee (interestSet (Some [''Food'', ''nature''])) = 3"
proof -
  have hit: "\<exists>k \<in> set (nullish (Some [''Food'', ''nature'']) []).
      toLowerCase (p_category place_coffee) = toLowerCase k"
    by (simp add: nullish_def place_coffee_def toLowerCase_def lower_char_def)
  have miss: "\<forall>k \<in> set (map toLowerCase (nullish (Some [''Food'', ''nature'']) [])).
      \<not> str_includes (toLowerCase (p_category place_wat)) k
      \<and> \<not> str_includes (toLowerCase (p_name place_wat)) k"
    by (simp add: nullish_def place_wat_def toLowerCase_def lower_char_def
        str_includes_def sublist_code)
  have three: "computeInterestScore place_coffee (interestSet (Some [''Food'', ''nature''])) = 3"
    by (simp add: interestSet_def nullish_def new_Set_def Set_add_def computeInterestScore_def
        place_coffee_def str_includes_def toLowerCase_def lower_char_def sublist_code)
  from C6_interest_score [of "Some [''Food'', ''nature'']" place_coffee place_wat] hit miss three
  show ?thesis by simp
qed

section \<open>Properties of the itinerary synthesis\<close>

lemma MakeDay_shift: "MakeDay y m (d + k) = MakeDay y m d + k"
  by (simp add: MakeDay_def)



lemma addDays_invalid:
  "Date_parse base = None \<Longrightarrow> addDays base offset = Inl (RangeError ''Invalid time value'')"
  by (simp add: addDays_def Let_def setUTCDate_def getUTCDate_def toISOString_def and_then_def)










section \<open>Properties of the weather provider\<close>














section \<open>Properties of the providers\<close>























lemma providersUsed_cache_lookup [simp]:
  "providersUsed (snd (cache_lookup key now context)) = providersUsed context"
  by (simp add: cache_lookup_def split: prod.splits)

lemma providersUsed_cache_store [simp]:
  "providersUsed (cache_store key v now context) = providersUsed context"
  by (simp add: cache_store_def)

lemma providersUsed_add_provider [simp]:
  "providersUsed (add_provider tag context) = Set_add (providersUsed context) tag"
  by (simp add: add_provider_def)

lemma set_Set_add [simp]: "set (Set_add s x) = insert x (set s)"
  by (auto simp: Set_add_def)







section \<open>Properties of the plan request\<close>










end
